theory Spec2Isabelle
  imports Complex_Main
begin

section \<open>Data model\<close>

text \<open>
  The dashboard script \<^verbatim>\<open>app.py\<close> builds one table of synthetic vital signs and hands
  it to the widgets of the page. The table is a pandas \<^verbatim>\<open>DataFrame\<close>: named columns of
  equal length, kept in the order in which the dictionary literal lists them.

  A point in time is a count of microseconds (the resolution of \<^verbatim>\<open>datetime\<close>) since
  midnight before proleptic ordinal day 1, which is the number the standard library
  itself forms when it adds a \<^verbatim>\<open>timedelta\<close> to a \<^verbatim>\<open>datetime\<close>. The clock of a running
  system is far from both ends of the \<^verbatim>\<open>datetime\<close> range, so instants are plain
  integers here. Floating-point numbers are idealised as reals.
\<close>

type_synonym instant = int

datatype cell = Instant instant | Number real | Missing

type_synonym column = "string \<times> cell list"

type_synonym dataframe = "column list"

datatype py_error =
    IndexError
  | KeyError string
  | ValueError
  | TypeError
  | AssertionError string

text \<open>
  What a call reads from outside: the system clock, as the reading that the next
  \<^verbatim>\<open>datetime.now()\<close> returns and the readings that the calls after it are going to return,
  and the standard-normal deviates that the process-wide NumPy generator is going to
  hand out, with the number of those already taken.
\<close>

record world =
  clock :: instant
  later :: "nat \<Rightarrow> instant"
  deviates :: "nat \<Rightarrow> real"
  consumed :: nat

subsection \<open>Calendar\<close>

text \<open>
  The day count of the standard library (\<^verbatim>\<open>_ymd2ord\<close>), for calendar fields that
  form a valid date. It is used to write instants the way the source prints them.
\<close>

definition is_leap :: "int \<Rightarrow> bool" where
  "is_leap y = (y mod 4 = 0 \<and> (y mod 100 \<noteq> 0 \<or> y mod 400 = 0))"

definition days_before_year :: "int \<Rightarrow> int" where
  "days_before_year year =
     (let y = year - 1 in y * 365 + y div 4 - y div 100 + y div 400)"

definition days_before_month :: "int \<Rightarrow> int \<Rightarrow> int" where
  "days_before_month year month =
     [0, 31, 59, 90, 120, 151, 181, 212, 243, 273, 304, 334] ! nat (month - 1)
       + (if month > 2 \<and> is_leap year then 1 else 0)"

definition ymd2ord :: "int \<Rightarrow> int \<Rightarrow> int \<Rightarrow> int" where
  "ymd2ord year month day = days_before_year year + days_before_month year month + day"

definition datetime :: "int \<Rightarrow> int \<Rightarrow> int \<Rightarrow> int \<Rightarrow> int \<Rightarrow> int \<Rightarrow> instant" where
  "datetime year month day hour minute second =
     (((ymd2ord year month day * 24 + hour) * 60 + minute) * 60 + second) * 1000000"

definition timedelta_hours :: "int \<Rightarrow> int" where
  "timedelta_hours i = i * 3600000000"

text \<open>
  \<^verbatim>\<open>datetime.now()\<close> returns the reading of the clock; time goes on, and the call after it
  finds the next reading.
\<close>

definition datetime_now :: "world \<Rightarrow> instant" where
  "datetime_now w = clock w"

definition clock_read :: "world \<Rightarrow> world" where
  "clock_read w = w\<lparr>clock := later w 0, later := (\<lambda>n. later w (Suc n))\<rparr>"

text \<open>\<^verbatim>\<open>range(start, stop, -1)\<close>: from \<open>start\<close> down to \<open>stop + 1\<close>.\<close>

definition range_down :: "int \<Rightarrow> int \<Rightarrow> int list" where
  "range_down start stop = rev [stop + 1..start]"

subsection \<open>NumPy\<close>

text \<open>
  \<^verbatim>\<open>np.random.normal(loc, scale, size)\<close> takes the next \<open>size\<close> standard-normal deviates
  of the generator and returns \<open>loc + scale * z\<close> for each. \<^verbatim>\<open>.round(1)\<close> multiplies by
  ten, rounds to the nearest integer with ties going to the even one (\<^verbatim>\<open>rint\<close>), and
  divides by ten.
\<close>

definition np_random_normal :: "real \<Rightarrow> real \<Rightarrow> nat \<Rightarrow> world \<Rightarrow> real list \<times> world" where
  "np_random_normal loc scale size_n w =
     (map (\<lambda>k. loc + scale * deviates w (consumed w + k)) [0..<size_n],
      w\<lparr>consumed := consumed w + size_n\<rparr>)"

definition rint :: "real \<Rightarrow> real" where
  "rint x =
     (let f = \<lfloor>x\<rfloor>; d = x - of_int f
      in of_int (if d < 1 / 2 then f
                 else if 1 / 2 < d then f + 1
                 else if even f then f else f + 1))"

definition np_round :: "nat \<Rightarrow> real \<Rightarrow> real" where
  "np_round decimals x = rint (x * 10 ^ decimals) / 10 ^ decimals"

subsection \<open>pandas\<close>

text \<open>
  The constructor refuses columns of different lengths. The number of rows is the length
  of the columns; a frame is \<^verbatim>\<open>empty\<close> when it has no column or no row; \<^verbatim>\<open>iloc[-1]\<close> is
  the last row, labelled by the column names, and raises \<^verbatim>\<open>IndexError\<close> when there is no
  row; indexing a row by a label it does not have raises \<^verbatim>\<open>KeyError\<close>.
\<close>

definition same_length :: "column list \<Rightarrow> bool" where
  "same_length cs = (case cs of [] \<Rightarrow> True
                     | c # rest \<Rightarrow> list_all (\<lambda>d. length (snd d) = length (snd c)) rest)"

definition DataFrame :: "column list \<Rightarrow> py_error + dataframe" where
  "DataFrame cs = (if same_length cs then Inr cs else Inl ValueError)"

definition columns :: "dataframe \<Rightarrow> string list" where
  "columns df = map fst df"

definition nrows :: "dataframe \<Rightarrow> nat" where
  "nrows df = (case df of [] \<Rightarrow> 0 | c # _ \<Rightarrow> length (snd c))"

definition df_empty :: "dataframe \<Rightarrow> bool" where
  "df_empty df = (columns df = [] \<or> nrows df = 0)"

type_synonym row = "(string \<times> cell) list"

definition iloc_last :: "dataframe \<Rightarrow> py_error + row" where
  "iloc_last df =
     (if nrows df = 0 then Inl IndexError
      else Inr (map (\<lambda>c. (fst c, snd c ! (nrows df - 1))) df))"

definition getitem :: "row \<Rightarrow> string \<Rightarrow> py_error + cell" where
  "getitem r label = (case map_of r label of None \<Rightarrow> Inl (KeyError label) | Some v \<Rightarrow> Inr v)"

section \<open>Sample data generation\<close>

text \<open>The list comprehension of the generator: one instant per hour, oldest first.\<close>

definition time_range :: "instant \<Rightarrow> instant list" where
  "time_range now = map (\<lambda>i. now - timedelta_hours i) (range_down 23 (- 1))"

definition generate_sample_vitals :: "world \<Rightarrow> (py_error + dataframe) \<times> world" where
  "generate_sample_vitals w =
     (let now = datetime_now w;
          (heart_rate, w1) = np_random_normal 75 5 24 (clock_read w);
          (systolic, w2) = np_random_normal 120 10 24 w1;
          (diastolic, w3) = np_random_normal 80 5 24 w2;
          (spo2, w4) = np_random_normal 98 1 24 w3;
          (temperature, w5) = np_random_normal (986 / 10) (1 / 2) 24 w4
      in (DataFrame
            [(''Timestamp'', map Instant (time_range now)),
             (''Heart Rate (BPM)'', map (Number \<circ> np_round 1) heart_rate),
             (''Systolic BP (mmHg)'', map (Number \<circ> np_round 1) systolic),
             (''Diastolic BP (mmHg)'', map (Number \<circ> np_round 1) diastolic),
             (''SpO2 (%)'', map (Number \<circ> np_round 1) spo2),
             (''Temperature (F)'', map (Number \<circ> np_round 1) temperature)],
          w5))"

text \<open>
  The function is declared without parameters: a call that passes it anything raises
  \<^verbatim>\<open>TypeError\<close> before the body runs.
\<close>

definition call_generate_sample_vitals ::
  "cell list \<Rightarrow> world \<Rightarrow> (py_error + dataframe) \<times> world" where
  "call_generate_sample_vitals args w =
     (if args = [] then generate_sample_vitals w else (Inl TypeError, w))"

text \<open>The five numeric columns, and the column of a frame under a name.\<close>

definition vital_columns :: "string list" where
  "vital_columns =
     [''Heart Rate (BPM)'', ''Systolic BP (mmHg)'', ''Diastolic BP (mmHg)'',
      ''SpO2 (%)'', ''Temperature (F)'']"

definition column_of :: "dataframe \<Rightarrow> string \<Rightarrow> cell list option" where
  "column_of df name = map_of df name"

definition is_number :: "cell \<Rightarrow> bool" where
  "is_number c = (case c of Number _ \<Rightarrow> True | _ \<Rightarrow> False)"


section \<open>The page\<close>

text \<open>
  What the script does after the table is built, as the list of its calls into the page
  in execution order, together with the exception that ended the run, if one did. The
  integrity check of the last section is a step of its own. Emoji glyphs of titles and
  of the footer are left out of the strings.
\<close>

datatype page_section =
  PatientProfile | RealtimeVitals | MedicalHistory | MedicationSchedule | VitalsTrend

datatype step =
    SetPageConfig
  | Title
  | Header page_section
  | Markdown string
  | Metric string "cell list"
  | PlotlyChart string
  | Table
  | IntegrityCheck
  | StError string

definition patient_profile :: "(string \<times> string) list" where
  "patient_profile =
     [(''Name'', ''John Doe''),
      (''Age'', ''72''),
      (''Gender'', ''Male''),
      (''Blood Group'', ''B+''),
      (''Allergies'', ''None''),
      (''Emergency Contact'', ''Jane Doe (+1234567890)''),
      (''Address'', ''123 Elderly Lane, Healthville''),
      (''Assigned Doctor'', ''Dr. Smith, General Medicine'')]"

text \<open>
  The four metric widgets: the label of each and the columns of the latest row that its
  text reads, in the order of the reads.
\<close>

definition metric_specs :: "(string \<times> string list) list" where
  "metric_specs =
     [(''Heart Rate'', [''Heart Rate (BPM)'']),
      (''Blood Pressure'', [''Systolic BP (mmHg)'', ''Diastolic BP (mmHg)'']),
      (''SpO2'', [''SpO2 (%)'']),
      (''Temperature'', [''Temperature (F)''])]"

fun getitems :: "row \<Rightarrow> string list \<Rightarrow> py_error + cell list" where
  "getitems r [] = Inr []"
| "getitems r (label # labels) =
     (case getitem r label of
        Inl e \<Rightarrow> Inl e
      | Inr v \<Rightarrow> (case getitems r labels of Inl e \<Rightarrow> Inl e | Inr vs \<Rightarrow> Inr (v # vs)))"

fun render_metrics :: "row \<Rightarrow> (string \<times> string list) list \<Rightarrow> step list \<times> py_error option" where
  "render_metrics r [] = ([], None)"
| "render_metrics r (m # ms) =
     (case getitems r (snd m) of
        Inl e \<Rightarrow> ([], Some e)
      | Inr vs \<Rightarrow> (case render_metrics r ms of (ss, e) \<Rightarrow> (Metric (fst m) vs # ss, e)))"

text \<open>
  The ten figures over the vitals table: the title of each and the columns it is asked
  to plot. Building a figure over a column that the table does not have raises
  \<^verbatim>\<open>ValueError\<close>. All ten are built before the first one is shown.
\<close>

definition vitals_figures :: "(string \<times> string list) list" where
  "vitals_figures =
     [(''Heart Rate Over Time'', [''Timestamp'', ''Heart Rate (BPM)'']),
      (''Blood Pressure Over Time'',
         [''Timestamp'', ''Systolic BP (mmHg)'', ''Diastolic BP (mmHg)'']),
      (''SpO2 Over Time'', [''Timestamp'', ''SpO2 (%)'']),
      (''Body Temperature Over Time'', [''Timestamp'', ''Temperature (F)'']),
      (''Heart Rate Distribution'', [''Timestamp'', ''Heart Rate (BPM)'']),
      (''Temperature Area Chart'', [''Timestamp'', ''Temperature (F)'']),
      (''Blood Pressure Scatter Plot'',
         [''Systolic BP (mmHg)'', ''Diastolic BP (mmHg)'', ''Heart Rate (BPM)'', ''SpO2 (%)'']),
      (''Heart Rate Histogram'', [''Heart Rate (BPM)'']),
      (''Temperature Box Plot'', [''Temperature (F)'']),
      (''Vitals Scatter Matrix'',
         [''Heart Rate (BPM)'', ''Systolic BP (mmHg)'', ''Diastolic BP (mmHg)'', ''SpO2 (%)''])]"

fun build_figures :: "dataframe \<Rightarrow> (string \<times> string list) list \<Rightarrow> py_error + string list" where
  "build_figures df [] = Inr []"
| "build_figures df (f # fs) =
     (if list_all (\<lambda>col. col \<in> set (columns df)) (snd f)
      then (case build_figures df fs of Inl e \<Rightarrow> Inl e | Inr ts \<Rightarrow> Inr (fst f # ts))
      else Inl ValueError)"

subsection \<open>Error handling\<close>

definition checked_columns :: "string list" where
  "checked_columns =
     [''Heart Rate (BPM)'', ''Systolic BP (mmHg)'', ''Diastolic BP (mmHg)'', ''SpO2 (%)'']"

definition integrity_check :: "dataframe \<Rightarrow> py_error + unit" where
  "integrity_check vitals_df =
     (if df_empty vitals_df then Inl (AssertionError ''Vitals data is missing.'')
      else if \<not> list_all (\<lambda>col. col \<in> set (columns vitals_df)) checked_columns
      then Inl (AssertionError ''Missing vital sign columns.'')
      else Inr ())"

definition error_handling :: "dataframe \<Rightarrow> step list \<times> py_error option" where
  "error_handling vitals_df =
     (case integrity_check vitals_df of
        Inl (AssertionError e) \<Rightarrow> ([IntegrityCheck, StError (''Data Error: '' @ e)], None)
      | Inl e \<Rightarrow> ([IntegrityCheck], Some e)
      | Inr _ \<Rightarrow> ([IntegrityCheck], None))"

subsection \<open>The script\<close>

definition footer :: "step list" where
  "footer =
     [Markdown ''---'',
      Markdown ''*Developed for remote elderly patient health tracking.*'']"

text \<open>
  The latest-value accessor of the script: the last row of the table.
\<close>

definition latest_vital :: "dataframe \<Rightarrow> py_error + row" where
  "latest_vital vitals_df = iloc_last vitals_df"

text \<open>The script from the latest-value accessor on, for a given vitals table.\<close>

definition dashboard :: "dataframe \<Rightarrow> step list \<times> py_error option" where
  "dashboard vitals_df =
     (case latest_vital vitals_df of
        Inl e \<Rightarrow> ([], Some e)
      | Inr latest \<Rightarrow>
          (let profile =
                 Header PatientProfile
                   # map (\<lambda>kv. Markdown (''**'' @ fst kv @ '':** '' @ snd kv)) patient_profile
                   @ [Header RealtimeVitals]
           in case render_metrics latest metric_specs of
                (ms, Some e) \<Rightarrow> (profile @ ms, Some e)
              | (ms, None) \<Rightarrow>
                  (let static =
                         [Header MedicalHistory, PlotlyChart ''Existing Medical Conditions'',
                          Header MedicationSchedule, Table, Header VitalsTrend]
                   in case build_figures vitals_df vitals_figures of
                        Inl e \<Rightarrow> (profile @ ms @ static, Some e)
                      | Inr figs \<Rightarrow>
                          (case error_handling vitals_df of
                             (hs, Some e) \<Rightarrow>
                               (profile @ ms @ static @ map PlotlyChart figs @ hs, Some e)
                           | (hs, None) \<Rightarrow>
                               (profile @ ms @ static @ map PlotlyChart figs @ hs @ footer,
                                None)))))"

text \<open>The whole script: page set-up, generation, then the rest.\<close>

definition app :: "world \<Rightarrow> step list \<times> py_error option" where
  "app w =
     (case fst (generate_sample_vitals w) of
        Inl e \<Rightarrow> ([SetPageConfig, Title], Some e)
      | Inr vitals_df \<Rightarrow>
          (case dashboard vitals_df of (ss, e) \<Rightarrow> ([SetPageConfig, Title] @ ss, e)))"

section \<open>Closed form of the generator and sample inputs\<close>

text \<open>
  The table that the generator returns, written out in terms of the instant it read and
  of the deviates it is about to take; \<open>generate_frame\<close> below proves that this is what
  \<open>generate_sample_vitals\<close> computes.
\<close>

definition upcoming :: "world \<Rightarrow> nat \<Rightarrow> real" where
  "upcoming w k = deviates w (consumed w + k)"

definition generated_frame :: "instant \<Rightarrow> (nat \<Rightarrow> real) \<Rightarrow> dataframe" where
  "generated_frame now z =
     [(''Timestamp'', map Instant (time_range now)),
      (''Heart Rate (BPM)'', map (\<lambda>k. Number (np_round 1 (75 + 5 * z k))) [0..<24]),
      (''Systolic BP (mmHg)'', map (\<lambda>k. Number (np_round 1 (120 + 10 * z (24 + k)))) [0..<24]),
      (''Diastolic BP (mmHg)'', map (\<lambda>k. Number (np_round 1 (80 + 5 * z (48 + k)))) [0..<24]),
      (''SpO2 (%)'', map (\<lambda>k. Number (np_round 1 (98 + 1 * z (72 + k)))) [0..<24]),
      (''Temperature (F)'',
         map (\<lambda>k. Number (np_round 1 (986 / 10 + 1 / 2 * z (96 + k)))) [0..<24])]"

text \<open>
  A run at noon of 1 January 2024 whose generator hands out 0, 1, 2, ...; every later
  read of the clock finds it one millisecond further.
\<close>

definition noon_world :: world where
  "noon_world =
     \<lparr>clock = datetime 2024 1 1 12 0 0,
      later = (\<lambda>n. datetime 2024 1 1 12 0 0 + 1000 * (int n + 1)),
      deviates = real,
      consumed = 0\<rparr>"

text \<open>
  A second call that finds the clock at noon again and the random source where the
  first call of the noon run left it, 120 deviates further.
\<close>

definition second_call_world :: world where
  "second_call_world =
     \<lparr>clock = datetime 2024 1 1 12 0 0,
      later = (\<lambda>n. datetime 2024 1 1 12 0 0 + 1000 * (int n + 1)),
      deviates = real,
      consumed = 120\<rparr>"



text \<open>A table of one row that has every column but the temperature.\<close>

definition vitals_without_temperature :: dataframe where
  "vitals_without_temperature =
     [(''Timestamp'', [Instant (datetime 2024 1 1 12 0 0)]),
      (''Heart Rate (BPM)'', [Number 75]),
      (''Systolic BP (mmHg)'', [Number 120]),
      (''Diastolic BP (mmHg)'', [Number 80]),
      (''SpO2 (%)'', [Number 98])]"

text \<open>
  The noon run with a generator in another state: five deviates are already taken, and
  the ones to come are again 0, 1, 2, ...
\<close>

definition shifted_world :: world where
  "shifted_world =
     \<lparr>clock = datetime 2024 1 1 12 0 0,
      later = (\<lambda>n. datetime 2024 1 1 12 0 0 + 1000 * (int n + 1)),
      deviates = (\<lambda>k. if k < 5 then 1000 else real (k - 5)),
      consumed = 5\<rparr>"

section \<open>Properties of the generator\<close>

subsection \<open>The time range\<close>

lemma length_range_down: "length (range_down 23 (- 1)) = 24"
  by (simp add: range_down_def)

lemma nth_range_down: "k < 24 \<Longrightarrow> range_down 23 (- 1) ! k = 23 - int k"
  by (simp add: range_down_def rev_nth)

lemma length_time_range: "length (time_range now) = 24"
  by (simp add: time_range_def length_range_down)

lemma nth_time_range: "k < 24 \<Longrightarrow> time_range now ! k = now - timedelta_hours (23 - int k)"
  by (simp add: time_range_def length_range_down nth_range_down)

lemma time_range_step:
  "Suc k < 24 \<Longrightarrow> time_range now ! Suc k - time_range now ! k = timedelta_hours 1"
  by (simp add: nth_time_range timedelta_hours_def)

lemma time_range_increasing: "sorted_wrt (<) (time_range now)"
  by (simp add: sorted_wrt_iff_nth_less length_time_range nth_time_range timedelta_hours_def)

lemma time_range_ends:
  "hd (time_range now) = now - timedelta_hours 23" "last (time_range now) = now"
proof -
  have ne: "time_range now \<noteq> []" using length_time_range [of now] by auto
  show "hd (time_range now) = now - timedelta_hours 23"
    using nth_time_range [of 0 now] ne by (simp add: hd_conv_nth)
  show "last (time_range now) = now"
    using nth_time_range [of 23 now] ne
    by (simp add: last_conv_nth length_time_range timedelta_hours_def)
qed

lemma generate_frame:
  "generate_sample_vitals w =
     (Inr (generated_frame (datetime_now w) (upcoming w)),
      clock_read w\<lparr>consumed := consumed w + 120\<rparr>)"
  by (simp add: generate_sample_vitals_def np_random_normal_def DataFrame_def same_length_def
      generated_frame_def upcoming_def length_time_range comp_def add.assoc clock_read_def)

lemma second_call_reads_later:
  "datetime_now (snd (generate_sample_vitals w)) = later w 0"
  by (simp add: generate_frame datetime_now_def clock_read_def)

lemma nrows_generated_frame: "nrows (generated_frame now z) = 24"
  by (simp add: nrows_def generated_frame_def length_time_range)

lemma lengths_generated_frame: "list_all (\<lambda>c. length (snd c) = 24) (generated_frame now z)"
  by (simp add: generated_frame_def length_time_range)

lemma vitals_generated_frame:
  "list_all (\<lambda>name. \<exists>vs. column_of (generated_frame now z) name = Some vs
       \<and> length vs = 24 \<and> list_all is_number vs) vital_columns"
  by (simp add: generated_frame_def vital_columns_def column_of_def is_number_def list_all_iff)

lemma timestamp_generated_frame:
  "column_of (generated_frame now z) ''Timestamp'' = Some (map Instant (time_range now))"
  by (simp add: generated_frame_def column_of_def)

lemma noon_minus_23h: "datetime 2024 1 1 12 0 0 - timedelta_hours 23 = datetime 2023 12 31 13 0 0"
  by (simp add: datetime_def timedelta_hours_def ymd2ord_def days_before_year_def
      days_before_month_def is_leap_def)

subsection \<open>Shape of the table\<close>

text \<open>
  Claim C1. Every call of the generator returns a table (the constructor does not
  refuse it) of exactly 24 rows: every column has 24 entries, and each of the five
  numeric columns (heart rate, systolic, diastolic, SpO2, temperature) is present and
  holds a number in every row, never a missing entry.
\<close>

theorem generated_series_complete:
  "\<exists>df. fst (generate_sample_vitals w) = Inr df
     \<and> nrows df = 24
     \<and> list_all (\<lambda>c. length (snd c) = 24) df
     \<and> list_all (\<lambda>name. \<exists>vs. column_of df name = Some vs
           \<and> length vs = 24 \<and> list_all is_number vs) vital_columns"
  by (simp add: generate_frame nrows_generated_frame lengths_generated_frame
      vitals_generated_frame)

text \<open>The same at the noon run.\<close>

theorem generated_series_complete_witness:
  "\<exists>df. fst (generate_sample_vitals noon_world) = Inr df
     \<and> nrows df = 24
     \<and> list_all (\<lambda>c. length (snd c) = 24) df
     \<and> list_all (\<lambda>name. \<exists>vs. column_of df name = Some vs
           \<and> length vs = 24 \<and> list_all is_number vs) vital_columns"
  using generated_series_complete [of noon_world] by simp

subsection \<open>Timestamps\<close>

text \<open>
  Claim C2. In every generated table the timestamps are strictly increasing, consecutive
  ones are exactly one hour apart, the last one is the instant \<open>now\<close> that the
  generator read, and the first one is \<open>now\<close> minus 23 hours; generating at
  2024-01-01T12:00:00 gives 2023-12-31T13:00:00 first and 2024-01-01T12:00:00 last.
\<close>

theorem generated_timestamps_hourly:
  "\<exists>df ts. fst (generate_sample_vitals w) = Inr df
     \<and> column_of df ''Timestamp'' = Some (map Instant ts)
     \<and> length ts = 24
     \<and> sorted_wrt (<) ts
     \<and> (\<forall>k. Suc k < 24 \<longrightarrow> ts ! Suc k - ts ! k = timedelta_hours 1)
     \<and> last ts = datetime_now w
     \<and> hd ts = datetime_now w - timedelta_hours 23
     \<and> (datetime_now w = datetime 2024 1 1 12 0 0 \<longrightarrow>
          hd ts = datetime 2023 12 31 13 0 0 \<and> last ts = datetime 2024 1 1 12 0 0)"
proof -
  let ?ts = "time_range (datetime_now w)"
  have "fst (generate_sample_vitals w) = Inr (generated_frame (datetime_now w) (upcoming w))"
    by (simp add: generate_frame)
  moreover have "column_of (generated_frame (datetime_now w) (upcoming w)) ''Timestamp''
      = Some (map Instant ?ts)"
    by (rule timestamp_generated_frame)
  moreover have "length ?ts = 24" by (rule length_time_range)
  moreover have "sorted_wrt (<) ?ts" by (rule time_range_increasing)
  moreover have "\<forall>k. Suc k < 24 \<longrightarrow> ?ts ! Suc k - ?ts ! k = timedelta_hours 1"
    by (simp add: time_range_step)
  moreover have "last ?ts = datetime_now w" by (rule time_range_ends)
  moreover have "hd ?ts = datetime_now w - timedelta_hours 23" by (rule time_range_ends)
  moreover have "datetime_now w = datetime 2024 1 1 12 0 0 \<longrightarrow>
      hd ?ts = datetime 2023 12 31 13 0 0 \<and> last ?ts = datetime 2024 1 1 12 0 0"
  proof
    assume noon: "datetime_now w = datetime 2024 1 1 12 0 0"
    have "hd ?ts = datetime 2024 1 1 12 0 0 - timedelta_hours 23"
      unfolding noon by (rule time_range_ends)
    then have "hd ?ts = datetime 2023 12 31 13 0 0"
      by (simp only: noon_minus_23h)
    moreover have "last ?ts = datetime 2024 1 1 12 0 0"
      unfolding noon by (rule time_range_ends)
    ultimately show "hd ?ts = datetime 2023 12 31 13 0 0 \<and> last ?ts = datetime 2024 1 1 12 0 0"
      by (rule conjI)
  qed
  ultimately show ?thesis by blast
qed

text \<open>The scenario of the claim, at the noon run.\<close>

theorem generated_timestamps_hourly_witness:
  "\<exists>df ts. fst (generate_sample_vitals noon_world) = Inr df
     \<and> column_of df ''Timestamp'' = Some (map Instant ts)
     \<and> length ts = 24
     \<and> ts ! 1 - ts ! 0 = timedelta_hours 1
     \<and> hd ts = datetime 2023 12 31 13 0 0
     \<and> last ts = datetime 2024 1 1 12 0 0"
proof -
  have now: "datetime_now noon_world = datetime 2024 1 1 12 0 0"
    by (simp add: datetime_now_def noon_world_def)
  from generated_timestamps_hourly [of noon_world] obtain df ts where
    "fst (generate_sample_vitals noon_world) = Inr df"
    "column_of df ''Timestamp'' = Some (map Instant ts)"
    "length ts = 24"
    "\<forall>k. Suc k < 24 \<longrightarrow> ts ! Suc k - ts ! k = timedelta_hours 1"
    "datetime_now noon_world = datetime 2024 1 1 12 0 0 \<longrightarrow>
          hd ts = datetime 2023 12 31 13 0 0 \<and> last ts = datetime 2024 1 1 12 0 0"
    by blast
  with now show ?thesis by (intro exI [of _ df] exI [of _ ts]) simp
qed

subsection \<open>The table as a function of the clock and the draws\<close>

text \<open>
  Claim C3 as stated: the generator's contract is \<open>generate(now)\<close>, the instant being
  supplied as its input. The source declares the function without parameters, so a call
  that supplies the instant raises \<^verbatim>\<open>TypeError\<close>; and two calls that both supply nothing,
  with the same draws to come, return different tables when the clock reads noon in one
  and one o'clock in the other.
\<close>

theorem generator_takes_no_instant:
  "fst (call_generate_sample_vitals [Instant (datetime 2024 1 1 12 0 0)] noon_world)
     = Inl TypeError
   \<and> fst (call_generate_sample_vitals [] (noon_world\<lparr>clock := datetime 2024 1 1 13 0 0\<rparr>))
       \<noteq> fst (call_generate_sample_vitals [] noon_world)"
proof
  show "fst (call_generate_sample_vitals [Instant (datetime 2024 1 1 12 0 0)] noon_world)
     = Inl TypeError"
    by (simp add: call_generate_sample_vitals_def)
  let ?later = "noon_world\<lparr>clock := datetime 2024 1 1 13 0 0\<rparr>"
  show "fst (call_generate_sample_vitals [] ?later)
       \<noteq> fst (call_generate_sample_vitals [] noon_world)"
  proof
    assume "fst (call_generate_sample_vitals [] ?later)
       = fst (call_generate_sample_vitals [] noon_world)"
    then have "generated_frame (datetime 2024 1 1 13 0 0) (upcoming ?later)
        = generated_frame (datetime 2024 1 1 12 0 0) (upcoming noon_world)"
      by (simp add: call_generate_sample_vitals_def generate_frame datetime_now_def
          noon_world_def)
    then have "column_of (generated_frame (datetime 2024 1 1 13 0 0) (upcoming ?later))
          ''Timestamp''
        = column_of (generated_frame (datetime 2024 1 1 12 0 0) (upcoming noon_world))
          ''Timestamp''"
      by simp
    then have "map Instant (time_range (datetime 2024 1 1 13 0 0))
        = map Instant (time_range (datetime 2024 1 1 12 0 0))"
      by (simp only: timestamp_generated_frame option.inject)
    then have "time_range (datetime 2024 1 1 13 0 0) = time_range (datetime 2024 1 1 12 0 0)"
      by (simp add: inj_on_def)
    then have "last (time_range (datetime 2024 1 1 13 0 0))
        = last (time_range (datetime 2024 1 1 12 0 0))"
      by simp
    then have "datetime 2024 1 1 13 0 0 = datetime 2024 1 1 12 0 0"
      by (simp only: time_range_ends)
    then show False
      by (simp add: datetime_def ymd2ord_def days_before_year_def days_before_month_def
          is_leap_def)
  qed
qed

text \<open>
  Claim C3 as amended: the generator takes no input. It reads the current instant from
  the system clock itself when it is called, and that reading together with the
  deviates it takes from the random source determines the table it returns.
\<close>

theorem generator_reads_clock:
  "call_generate_sample_vitals [] w = generate_sample_vitals w
   \<and> fst (generate_sample_vitals w) = Inr (generated_frame (datetime_now w) (upcoming w))"
  by (simp add: call_generate_sample_vitals_def generate_frame)

lemma generated_frame_cong:
  "\<forall>k<120. z1 k = z2 k \<Longrightarrow> generated_frame now z1 = generated_frame now z2"
  by (simp add: generated_frame_def)

lemma heart_rate_generated:
  "column_of (generated_frame now z) ''Heart Rate (BPM)''
     = Some (map (\<lambda>k. Number (np_round 1 (75 + 5 * z k))) [0..<24])"
  by (simp add: column_of_def generated_frame_def)

lemma same_now_tables_differ:
  "fst (generate_sample_vitals noon_world) \<noteq> fst (generate_sample_vitals second_call_world)"
proof
  assume "fst (generate_sample_vitals noon_world) = fst (generate_sample_vitals second_call_world)"
  then have "generated_frame (datetime_now noon_world) (upcoming noon_world)
      = generated_frame (datetime_now second_call_world) (upcoming second_call_world)"
    by (simp add: generate_frame)
  then have "column_of (generated_frame (datetime_now noon_world) (upcoming noon_world))
        ''Heart Rate (BPM)''
      = column_of (generated_frame (datetime_now second_call_world)
          (upcoming second_call_world)) ''Heart Rate (BPM)''"
    by simp
  then have "map (\<lambda>k. Number (np_round 1 (75 + 5 * upcoming noon_world k))) [0..<24]
      = map (\<lambda>k. Number (np_round 1 (75 + 5 * upcoming second_call_world k))) [0..<24]"
    by (simp only: heart_rate_generated option.inject)
  then have "np_round 1 (75 + 5 * upcoming noon_world 0)
      = np_round 1 (75 + 5 * upcoming second_call_world 0)"
    by simp
  moreover have "upcoming noon_world 0 = 0" "upcoming second_call_world 0 = 120"
    by (simp_all add: upcoming_def noon_world_def second_call_world_def)
  ultimately show False
    by (simp add: np_round_def rint_def)
qed

lemma second_call_world_source:
  "deviates second_call_world = deviates (snd (generate_sample_vitals noon_world))
   \<and> consumed second_call_world = consumed (snd (generate_sample_vitals noon_world))"
  by (simp add: generate_frame clock_read_def noon_world_def second_call_world_def)

text \<open>
  Claim C9. Two calls that read the same instant \<open>now\<close> return tables with the same
  number of rows and the same timestamps. Their numeric values need not agree: a call
  that finds the random source where an earlier call left it, and the clock at the same
  reading, returns other numbers than the earlier call.
\<close>

theorem same_now_same_timestamps:
  "(datetime_now w1 = datetime_now w2 \<longrightarrow>
      (\<exists>df1 df2. fst (generate_sample_vitals w1) = Inr df1
         \<and> fst (generate_sample_vitals w2) = Inr df2
         \<and> nrows df1 = nrows df2
         \<and> column_of df1 ''Timestamp'' = column_of df2 ''Timestamp''))
   \<and> (\<exists>v1 v2. datetime_now v1 = datetime_now v2
         \<and> deviates v2 = deviates (snd (generate_sample_vitals v1))
         \<and> consumed v2 = consumed (snd (generate_sample_vitals v1))
         \<and> fst (generate_sample_vitals v1) \<noteq> fst (generate_sample_vitals v2))"
proof (intro conjI impI)
  assume "datetime_now w1 = datetime_now w2"
  then show "\<exists>df1 df2. fst (generate_sample_vitals w1) = Inr df1
         \<and> fst (generate_sample_vitals w2) = Inr df2
         \<and> nrows df1 = nrows df2
         \<and> column_of df1 ''Timestamp'' = column_of df2 ''Timestamp''"
    by (simp add: generate_frame nrows_generated_frame timestamp_generated_frame)
next
  have "datetime_now noon_world = datetime_now second_call_world"
    by (simp add: datetime_now_def noon_world_def second_call_world_def)
  with second_call_world_source same_now_tables_differ
  show "\<exists>v1 v2. datetime_now v1 = datetime_now v2
         \<and> deviates v2 = deviates (snd (generate_sample_vitals v1))
         \<and> consumed v2 = consumed (snd (generate_sample_vitals v1))
         \<and> fst (generate_sample_vitals v1) \<noteq> fst (generate_sample_vitals v2)"
    by blast
qed

text \<open>The noon run and the second call that reads noon again.\<close>

theorem same_now_same_timestamps_witness:
  "datetime_now noon_world = datetime_now second_call_world
   \<and> (\<exists>df1 df2. fst (generate_sample_vitals noon_world) = Inr df1
         \<and> fst (generate_sample_vitals second_call_world) = Inr df2
         \<and> nrows df1 = nrows df2
         \<and> column_of df1 ''Timestamp'' = column_of df2 ''Timestamp''
         \<and> df1 \<noteq> df2)"
proof -
  have now: "datetime_now noon_world = datetime_now second_call_world"
    by (simp add: datetime_now_def noon_world_def second_call_world_def)
  with same_now_same_timestamps [of noon_world second_call_world] obtain df1 df2 where
    "fst (generate_sample_vitals noon_world) = Inr df1"
    "fst (generate_sample_vitals second_call_world) = Inr df2"
    "nrows df1 = nrows df2"
    "column_of df1 ''Timestamp'' = column_of df2 ''Timestamp''"
    by blast
  moreover from this same_now_tables_differ have "df1 \<noteq> df2" by auto
  ultimately show ?thesis using now by blast
qed

text \<open>
  Claim C10. The generator is deterministic in what it reads: two runs that read the
  same instant and are handed the same 120 deviates by the random source return the
  same table, with the same column names, timestamps and numbers.
\<close>

theorem generate_sample_vitals_deterministic:
  assumes "datetime_now w1 = datetime_now w2"
    and "\<forall>k<120. deviates w1 (consumed w1 + k) = deviates w2 (consumed w2 + k)"
  shows "\<exists>df. fst (generate_sample_vitals w1) = Inr df
           \<and> fst (generate_sample_vitals w2) = Inr df"
proof -
  from assms(2) have "\<forall>k<120. upcoming w1 k = upcoming w2 k"
    by (simp add: upcoming_def)
  then have "generated_frame (datetime_now w1) (upcoming w1)
      = generated_frame (datetime_now w1) (upcoming w2)"
    by (rule generated_frame_cong)
  with assms(1) show ?thesis by (simp add: generate_frame)
qed

text \<open>
  Two generators in different states that are about to hand out the same deviates.
\<close>

theorem generate_sample_vitals_deterministic_witness:
  "datetime_now noon_world = datetime_now shifted_world
   \<and> map (\<lambda>k. deviates noon_world (consumed noon_world + k)) [0..<120]
       = map (\<lambda>k. deviates shifted_world (consumed shifted_world + k)) [0..<120]
   \<and> deviates noon_world \<noteq> deviates shifted_world
   \<and> (\<exists>df. fst (generate_sample_vitals noon_world) = Inr df
          \<and> fst (generate_sample_vitals shifted_world) = Inr df)"
proof -
  have a: "datetime_now noon_world = datetime_now shifted_world"
    by (simp add: datetime_now_def noon_world_def shifted_world_def)
  have b: "\<forall>k<120. deviates noon_world (consumed noon_world + k)
          = deviates shifted_world (consumed shifted_world + k)"
    by (simp add: noon_world_def shifted_world_def)
  have c: "deviates noon_world \<noteq> deviates shifted_world"
  proof
    assume "deviates noon_world = deviates shifted_world"
    then have "deviates noon_world 0 = deviates shifted_world 0" by simp
    then show False by (simp add: noon_world_def shifted_world_def)
  qed
  from a b c generate_sample_vitals_deterministic [OF a b] show ?thesis by simp
qed

subsection \<open>The numeric columns\<close>










section \<open>The latest-value accessor\<close>

lemma same_length_column:
  assumes "same_length df" "column_of df name = Some vs"
  shows "length vs = nrows df"
proof -
  from assms(2) have mem: "(name, vs) \<in> set df"
    by (simp add: column_of_def map_of_SomeD)
  then obtain c rest where df: "df = c # rest" by (cases df) auto
  with assms(1) have "\<forall>d \<in> set rest. length (snd d) = length (snd c)"
    by (simp add: same_length_def list_all_iff)
  with mem df have "length vs = length (snd c)" by auto
  with df show ?thesis by (simp add: nrows_def)
qed

lemma map_of_last_row:
  "map_of df name = Some vs \<Longrightarrow> map_of (map (\<lambda>c. (fst c, g (snd c))) df) name = Some (g vs)"
  by (induction df) (auto split: if_splits)

lemma sorted_last_Max:
  fixes ts :: "int list"
  assumes "sorted ts" "ts \<noteq> []"
  shows "last ts = Max (set ts)"
proof -
  have "\<forall>y \<in> set ts. y \<le> last ts"
    using assms by (metis in_set_conv_nth last_conv_nth sorted_nth_mono
        One_nat_def Suc_pred diff_less length_greater_0_conv less_Suc_eq_le zero_less_one)
  then show ?thesis
    using assms(2) by (intro Max_eqI [symmetric]) auto
qed

lemma same_length_generated: "same_length (generated_frame now z)"
  by (simp add: same_length_def generated_frame_def length_time_range)

lemma time_range_sorted: "sorted (time_range now)"
  using time_range_increasing by (rule strict_sorted_imp_sorted)

text \<open>
  Claim C5. For every non-empty vitals series (a table whose columns have the same
  length and whose timestamps are in chronological order) the accessor returns the last
  row, and the timestamp of that row is the maximum timestamp of the series.
\<close>

theorem latest_vital_is_most_recent:
  assumes "same_length df"
    and "column_of df ''Timestamp'' = Some (map Instant ts)"
    and "ts \<noteq> []"
    and "sorted ts"
  shows "\<exists>r. latest_vital df = Inr r
           \<and> r = map (\<lambda>c. (fst c, last (snd c))) df
           \<and> getitem r ''Timestamp'' = Inr (Instant (Max (set ts)))"
proof -
  have n: "nrows df = length ts"
    using same_length_column [OF assms(1,2)] by simp
  with assms(3) have pos: "nrows df \<noteq> 0" by simp
  have each: "\<forall>c \<in> set df. snd c ! (nrows df - 1) = last (snd c)"
  proof
    fix c assume c: "c \<in> set df"
    obtain d rest where df: "df = d # rest" using c by (cases df) auto
    with assms(1) c have "length (snd c) = nrows df"
      by (auto simp: same_length_def list_all_iff nrows_def)
    with pos show "snd c ! (nrows df - 1) = last (snd c)"
      by (metis last_conv_nth length_0_conv)
  qed
  then have r: "latest_vital df = Inr (map (\<lambda>c. (fst c, last (snd c))) df)"
    using pos by (simp add: latest_vital_def iloc_last_def)
  have "map_of (map (\<lambda>c. (fst c, last (snd c))) df) ''Timestamp''
      = Some (last (map Instant ts))"
    using assms(2) by (simp add: column_of_def map_of_last_row)
  also have "last (map Instant ts) = Instant (last ts)"
    using assms(3) by (simp add: last_map)
  also have "last ts = Max (set ts)"
    using assms(3,4) by (simp add: sorted_last_Max)
  finally have "getitem (map (\<lambda>c. (fst c, last (snd c))) df) ''Timestamp''
      = Inr (Instant (Max (set ts)))"
    by (simp add: getitem_def)
  with r show ?thesis by simp
qed

text \<open>The table generated at noon of 1 January 2024: its latest row is the one of noon.\<close>

theorem latest_vital_is_most_recent_witness:
  "same_length (generated_frame (datetime 2024 1 1 12 0 0) real)
   \<and> column_of (generated_frame (datetime 2024 1 1 12 0 0) real) ''Timestamp''
       = Some (map Instant (time_range (datetime 2024 1 1 12 0 0)))
   \<and> time_range (datetime 2024 1 1 12 0 0) \<noteq> []
   \<and> sorted (time_range (datetime 2024 1 1 12 0 0))
   \<and> (\<exists>r. latest_vital (generated_frame (datetime 2024 1 1 12 0 0) real) = Inr r
         \<and> getitem r ''Timestamp'' = Inr (Instant (datetime 2024 1 1 12 0 0)))"
proof -
  let ?now = "datetime 2024 1 1 12 0 0"
  have a: "same_length (generated_frame ?now real)"
    by (rule same_length_generated)
  have b: "column_of (generated_frame ?now real) ''Timestamp''
      = Some (map Instant (time_range ?now))"
    by (rule timestamp_generated_frame)
  have c: "time_range ?now \<noteq> []"
    using length_time_range [of ?now] by auto
  have d: "sorted (time_range ?now)"
    by (rule time_range_sorted)
  have "Max (set (time_range ?now)) = ?now"
    using sorted_last_Max [OF d c] time_range_ends(2) [of ?now] by simp
  with latest_vital_is_most_recent [OF a b c d] a b c d show ?thesis
    by auto
qed




section \<open>The integrity check\<close>

lemma integrity_check_passes_iff:
  "integrity_check df = Inr () \<longleftrightarrow>
     \<not> df_empty df \<and> set checked_columns \<subseteq> set (columns df)"
  by (auto simp: integrity_check_def list_all_iff)

section \<open>Order of the run\<close>

lemma time_range_23: "time_range now ! 23 = now"
  using nth_time_range [of 23 now] by (simp add: timedelta_hours_def)

lemma iloc_last_generated:
  "iloc_last (generated_frame now z) =
     Inr [(''Timestamp'', Instant now),
          (''Heart Rate (BPM)'', Number (np_round 1 (75 + 5 * z 23))),
          (''Systolic BP (mmHg)'', Number (np_round 1 (120 + 10 * z 47))),
          (''Diastolic BP (mmHg)'', Number (np_round 1 (80 + 5 * z 71))),
          (''SpO2 (%)'', Number (np_round 1 (98 + 1 * z 95))),
          (''Temperature (F)'', Number (np_round 1 (986 / 10 + 1 / 2 * z 119)))]"
proof -
  have "iloc_last (generated_frame now z) =
      Inr (map (\<lambda>c. (fst c, snd c ! 23)) (generated_frame now z))"
    by (simp add: iloc_last_def nrows_generated_frame)
  also have "map (\<lambda>c. (fst c, snd c ! 23)) (generated_frame now z) =
      [(''Timestamp'', Instant now),
       (''Heart Rate (BPM)'', Number (np_round 1 (75 + 5 * z 23))),
       (''Systolic BP (mmHg)'', Number (np_round 1 (120 + 10 * z 47))),
       (''Diastolic BP (mmHg)'', Number (np_round 1 (80 + 5 * z 71))),
       (''SpO2 (%)'', Number (np_round 1 (98 + 1 * z 95))),
       (''Temperature (F)'', Number (np_round 1 (986 / 10 + 1 / 2 * z 119)))]"
    by (simp add: generated_frame_def length_time_range time_range_23)
  finally show ?thesis .
qed

lemma columns_generated:
  "columns (generated_frame now z) =
     [''Timestamp'', ''Heart Rate (BPM)'', ''Systolic BP (mmHg)'', ''Diastolic BP (mmHg)'',
      ''SpO2 (%)'', ''Temperature (F)'']"
  by (simp add: columns_def generated_frame_def)

lemma build_figures_generated:
  "build_figures (generated_frame now z) vitals_figures = Inr (map fst vitals_figures)"
  by (simp add: vitals_figures_def columns_generated)

lemma integrity_check_generated: "integrity_check (generated_frame now z) = Inr ()"
  by (simp add: integrity_check_def df_empty_def nrows_generated_frame checked_columns_def
      columns_generated)

lemma render_metrics_generated:
  "render_metrics
     [(''Timestamp'', t), (''Heart Rate (BPM)'', h), (''Systolic BP (mmHg)'', s),
      (''Diastolic BP (mmHg)'', d), (''SpO2 (%)'', x), (''Temperature (F)'', f)]
     metric_specs =
   ([Metric ''Heart Rate'' [h], Metric ''Blood Pressure'' [s, d], Metric ''SpO2'' [x],
     Metric ''Temperature'' [f]], None)"
  by (simp add: metric_specs_def getitem_def)

lemma error_handling_generated:
  "error_handling (generated_frame now z) = ([IntegrityCheck], None)"
  by (simp add: error_handling_def integrity_check_generated)

lemma dashboard_generated:
  "dashboard (generated_frame now z) =
     (Header PatientProfile
        # map (\<lambda>kv. Markdown (''**'' @ fst kv @ '':** '' @ snd kv)) patient_profile
        @ [Header RealtimeVitals,
           Metric ''Heart Rate'' [Number (np_round 1 (75 + 5 * z 23))],
           Metric ''Blood Pressure''
             [Number (np_round 1 (120 + 10 * z 47)), Number (np_round 1 (80 + 5 * z 71))],
           Metric ''SpO2'' [Number (np_round 1 (98 + 1 * z 95))],
           Metric ''Temperature'' [Number (np_round 1 (986 / 10 + 1 / 2 * z 119))],
           Header MedicalHistory, PlotlyChart ''Existing Medical Conditions'',
           Header MedicationSchedule, Table, Header VitalsTrend]
        @ map PlotlyChart (map fst vitals_figures)
        @ [IntegrityCheck]
        @ footer,
      None)"
  by (simp only: dashboard_def latest_vital_def iloc_last_generated render_metrics_generated
      build_figures_generated error_handling_generated Let_def sum.case prod.case
      option.case append.simps append_assoc)

text \<open>
  Claim C8 says that the integrity check runs right after generation, before the data
  reaches the widgets. Every run of the script is the following list of steps: the
  four metrics and the ten figures of the vitals table are shown first, and the check
  is the step after the last of them.
\<close>

theorem integrity_check_runs_after_charts:
  "app w =
     ([SetPageConfig, Title, Header PatientProfile]
        @ map (\<lambda>kv. Markdown (''**'' @ fst kv @ '':** '' @ snd kv)) patient_profile
        @ [Header RealtimeVitals,
           Metric ''Heart Rate'' [Number (np_round 1 (75 + 5 * upcoming w 23))],
           Metric ''Blood Pressure''
             [Number (np_round 1 (120 + 10 * upcoming w 47)),
              Number (np_round 1 (80 + 5 * upcoming w 71))],
           Metric ''SpO2'' [Number (np_round 1 (98 + 1 * upcoming w 95))],
           Metric ''Temperature'' [Number (np_round 1 (986 / 10 + 1 / 2 * upcoming w 119))],
           Header MedicalHistory, PlotlyChart ''Existing Medical Conditions'',
           Header MedicationSchedule, Table, Header VitalsTrend]
        @ map PlotlyChart (map fst vitals_figures)
        @ [IntegrityCheck]
        @ footer,
      None)"
  by (simp only: app_def generate_frame dashboard_generated fst_conv sum.case prod.case
      append.simps)

text \<open>
  A table that the check would refuse never reaches it: the message of the handler is
  shown in no run, whatever the table.
\<close>

lemma render_metrics_steps:
  "render_metrics r ms = (ss, e) \<Longrightarrow> s \<in> set ss \<Longrightarrow> \<exists>l vs. s = Metric l vs"
proof (induction ms arbitrary: ss e)
  case Nil
  then show ?case by simp
next
  case (Cons m ms)
  then show ?case
    by (auto split: sum.splits prod.splits)
qed

lemma getitems_present:
  "getitems r ls = Inr vs \<Longrightarrow> l \<in> set ls \<Longrightarrow> l \<in> fst ` set r"
proof (induction ls arbitrary: vs)
  case Nil
  then show ?case by simp
next
  case (Cons a ls)
  then show ?case
    by (auto simp: getitem_def image_iff split: sum.splits option.splits dest!: map_of_SomeD)
      force
qed

lemma render_metrics_present:
  "render_metrics r ms = (ss, None) \<Longrightarrow> l \<in> set (concat (map snd ms)) \<Longrightarrow> l \<in> fst ` set r"
proof (induction ms arbitrary: ss)
  case Nil
  then show ?case by simp
next
  case (Cons a ms)
  then show ?case
    by (auto split: sum.splits prod.splits dest: getitems_present)
qed

lemma checked_columns_read: "set checked_columns \<subseteq> set (concat (map snd metric_specs))"
  by (simp add: checked_columns_def metric_specs_def)

lemma iloc_last_labels:
  assumes "iloc_last df = Inr r"
  shows "fst ` set r = set (columns df) \<and> \<not> df_empty df"
proof -
  from assms have n: "nrows df \<noteq> 0" and r: "r = map (\<lambda>c. (fst c, snd c ! (nrows df - 1))) df"
    by (auto simp: iloc_last_def split: if_splits)
  have "map fst r = columns df"
    unfolding r by (simp add: columns_def comp_def)
  then have "fst ` set r = set (columns df)"
    by (metis set_map)
  moreover from n have "\<not> df_empty df"
    by (auto simp: df_empty_def columns_def nrows_def)
  ultimately show ?thesis by simp
qed

lemma checked_after_metrics:
  assumes "iloc_last df = Inr r" "render_metrics r metric_specs = (ms, None)"
  shows "integrity_check df = Inr ()"
proof -
  have "set checked_columns \<subseteq> fst ` set r"
    using checked_columns_read render_metrics_present [OF assms(2)] by blast
  with iloc_last_labels [OF assms(1)] show ?thesis
    by (simp add: integrity_check_passes_iff)
qed

lemma data_error_never_shown: "StError msg \<notin> set (fst (dashboard df))"
proof (cases "iloc_last df")
  case (Inl e)
  then show ?thesis by (simp add: dashboard_def latest_vital_def)
next
  case (Inr r)
  obtain ms e where rm: "render_metrics r metric_specs = (ms, e)" by (cases "render_metrics r metric_specs")
  have ms: "StError msg \<notin> set ms"
    using render_metrics_steps [OF rm] by auto
  show ?thesis
  proof (cases e)
    case (Some a)
    with Inr rm ms show ?thesis by (auto simp: dashboard_def latest_vital_def Let_def)
  next
    case None
    with Inr rm have "integrity_check df = Inr ()" by (simp add: checked_after_metrics)
    then have "error_handling df = ([IntegrityCheck], None)" by (simp add: error_handling_def)
    with Inr rm ms None show ?thesis
      by (auto simp: dashboard_def latest_vital_def Let_def footer_def split: sum.splits)
  qed
qed

section \<open>What the integrity check decides\<close>








lemma table_without_temperature_stops_early:
  "snd (dashboard vitals_without_temperature) = Some (KeyError ''Temperature (F)'')
   \<and> IntegrityCheck \<notin> set (fst (dashboard vitals_without_temperature))"
  by (simp add: dashboard_def latest_vital_def iloc_last_def nrows_def
      vitals_without_temperature_def metric_specs_def getitem_def patient_profile_def)



end
